theory Spec2Isabelle
  imports Main "HOL-Library.Word"
begin

section \<open>Version reconciliation: \<open>checkForChanges\<close> of main.go\<close>

subsection \<open>Parsed versions\<close>

text \<open>
  \<open>checkForChanges\<close> parses version strings with \<open>version.NewVersion\<close> of the
  dependency hashicorp/go-version and reads \<open>Segments()[0]\<close>, \<open>[1]\<close> and \<open>[2]\<close> of the
  result. The library pads the segment list to three entries, so these reads are always in
  range; a parsed version is the three segments the code reads. Go's \<open>int\<close> is a 64-bit
  two's complement integer on the platforms the action runs on: comparisons are signed and
  \<open>++\<close> wraps around.
\<close>

record version =
  seg0 :: "64 word"
  seg1 :: "64 word"
  seg2 :: "64 word"

text \<open>
  The parser is a parameter of the model: \<open>nv s = None\<close> when \<open>NewVersion(s)\<close> returns an
  error. Every theorem about \<open>checkForChanges\<close> holds for every parser.
\<close>

type_synonym parser = "string \<Rightarrow> version option"

datatype error =
    ErrConfigSpeakeasyVersion   \<comment> \<open>error parsing config speakeasy version\<close>
  | ErrSpeakeasyVersion         \<comment> \<open>error parsing speakeasy version\<close>
  | ErrConfigOpenAPIVersion     \<comment> \<open>error parsing config openapi version\<close>
  | ErrSdkVersion               \<comment> \<open>error parsing sdk version\<close>
  | ErrParseLastRelease         \<comment> \<open>error parsing last release info\<close>

subsection \<open>The management section of the configuration\<close>

text \<open>
  \<open>mgmtConfig\<close> is a Go \<open>map[string]string\<close>; reading a missing key (or a nil map) gives
  the empty string.
\<close>

type_synonym config = "string \<rightharpoonup> string"

definition lookup :: "config \<Rightarrow> string \<Rightarrow> string" where
  "lookup m k = (case m k of None \<Rightarrow> '''' | Some v \<Rightarrow> v)"

subsection \<open>The three signals\<close>

record bumps =
  bumpMajor :: bool
  bumpMinor :: bool
  bumpPatch :: bool
  docVersionUpdated :: bool

definition noBumps :: bumps where
  "noBumps = \<lparr>bumpMajor = False, bumpMinor = False, bumpPatch = False,
              docVersionUpdated = False\<rparr>"

text \<open>Lines 209 to 232: the generator's version against the recorded one.\<close>

definition speakeasySignal :: "parser \<Rightarrow> string \<Rightarrow> config \<Rightarrow> bumps \<Rightarrow> error + bumps" where
  "speakeasySignal nv speakeasyVersion mgmtConfig b =
     (if lookup mgmtConfig ''speakeasy-version'' = '''' then Inr (b\<lparr>bumpMinor := True\<rparr>)
      else case nv (lookup mgmtConfig ''speakeasy-version'') of
          None \<Rightarrow> Inl ErrConfigSpeakeasyVersion
        | Some previousSpeakeasyV \<Rightarrow>
           (case nv speakeasyVersion of
              None \<Rightarrow> Inl ErrSpeakeasyVersion
            | Some currentSpeakeasyV \<Rightarrow>
                if sint (seg0 currentSpeakeasyV) > sint (seg0 previousSpeakeasyV)
                  then Inr (b\<lparr>bumpMajor := True\<rparr>)
                else if sint (seg1 currentSpeakeasyV) > sint (seg1 previousSpeakeasyV)
                  then Inr (b\<lparr>bumpMinor := True\<rparr>)
                else if sint (seg2 currentSpeakeasyV) > sint (seg2 previousSpeakeasyV)
                  then Inr (b\<lparr>bumpPatch := True\<rparr>)
                else Inr b))"

text \<open>
  Lines 234 to 263: the document's version against the recorded one. The current document
  version is parsed first; when it is no version the signal is skipped (a warning is
  printed) and the recorded one is never parsed.
\<close>

definition docSignal :: "parser \<Rightarrow> string \<Rightarrow> config \<Rightarrow> bumps \<Rightarrow> error + bumps" where
  "docSignal nv docVersion mgmtConfig b =
     (if lookup mgmtConfig ''openapi-version'' = '''' then Inr (b\<lparr>bumpMinor := True\<rparr>)
      else case nv docVersion of
          None \<Rightarrow> Inr b
        | Some currentDocV \<Rightarrow>
           (case nv (lookup mgmtConfig ''openapi-version'') of
              None \<Rightarrow> Inl ErrConfigOpenAPIVersion
            | Some previousDocV \<Rightarrow>
                if sint (seg0 currentDocV) > sint (seg0 previousDocV)
                  then Inr (b\<lparr>bumpMajor := True, docVersionUpdated := True\<rparr>)
                else if sint (seg1 currentDocV) > sint (seg1 previousDocV)
                  then Inr (b\<lparr>bumpMinor := True, docVersionUpdated := True\<rparr>)
                else if sint (seg2 currentDocV) > sint (seg2 previousDocV)
                  then Inr (b\<lparr>bumpPatch := True, docVersionUpdated := True\<rparr>)
                else Inr b))"

text \<open>Lines 265 to 275: the document's checksum against the recorded one.\<close>

definition checksumSignal :: "string \<Rightarrow> config \<Rightarrow> bumps \<Rightarrow> bumps" where
  "checksumSignal docChecksum mgmtConfig b =
     (if lookup mgmtConfig ''openapi-checksum'' = '''' then b\<lparr>bumpMinor := True\<rparr>
      else if docChecksum \<noteq> lookup mgmtConfig ''openapi-checksum'' then b\<lparr>bumpPatch := True\<rparr>
      else b)"

text \<open>The flags after the three blocks, in the order the code runs them.\<close>

definition signals :: "parser \<Rightarrow> string \<Rightarrow> string \<Rightarrow> string \<Rightarrow> config \<Rightarrow> error + bumps" where
  "signals nv speakeasyVersion docVersion docChecksum mgmtConfig =
     (case speakeasySignal nv speakeasyVersion mgmtConfig noBumps of
        Inl e \<Rightarrow> Inl e
      | Inr b1 \<Rightarrow>
         (case docSignal nv docVersion mgmtConfig b1 of
            Inl e \<Rightarrow> Inl e
          | Inr b2 \<Rightarrow> Inr (checksumSignal docChecksum mgmtConfig b2)))"

subsection \<open>The starting version and the bump\<close>

text \<open>Lines 277 to 288: \<open>var major, minor, patch int\<close> start at zero.\<close>

definition zeroVersion :: version where
  "zeroVersion = \<lparr>seg0 = 0, seg1 = 0, seg2 = 0\<rparr>"

definition startVersion :: "parser \<Rightarrow> string \<Rightarrow> error + version" where
  "startVersion nv sdkVersion =
     (if sdkVersion \<noteq> '''' then
        (case nv sdkVersion of
           None \<Rightarrow> Inl ErrSdkVersion
         | Some sdkV \<Rightarrow> Inr \<lparr>seg0 = seg0 sdkV, seg1 = seg1 sdkV, seg2 = seg2 sdkV\<rparr>)
      else Inr zeroVersion)"

text \<open>Lines 290 to 302.\<close>

definition bump :: "bumps \<Rightarrow> version \<Rightarrow> version" where
  "bump b v =
     (if bumpMajor b then \<lparr>seg0 = seg0 v + 1, seg1 = 0, seg2 = 0\<rparr>
      else if bumpMinor b then \<lparr>seg0 = seg0 v, seg1 = seg1 v + 1, seg2 = 0\<rparr>
      else if bumpPatch b then \<lparr>seg0 = seg0 v, seg1 = seg1 v, seg2 = seg2 v + 1\<rparr>
      else v)"

subsection \<open>Formatting with \<open>%d\<close>\<close>

definition digitChar :: "int \<Rightarrow> char" where
  "digitChar d = ''0123456789'' ! nat d"

function decString :: "int \<Rightarrow> string" where
  "decString n =
     (if n < 10 then [digitChar n] else decString (n div 10) @ [digitChar (n mod 10)])"
  by pat_completeness auto
termination
  by (relation "measure nat") auto

declare decString.simps [simp del]

definition intString :: "int \<Rightarrow> string" where
  "intString i = (if i < 0 then CHR ''-'' # decString (- i) else decString i)"

text \<open>\<open>fmt.Sprintf("%d.%d.%d", major, minor, patch)\<close> on Go's signed \<open>int\<close>.\<close>

definition SprintfVersion :: "version \<Rightarrow> string" where
  "SprintfVersion v =
     intString (sint (seg0 v)) @ ''.'' @ intString (sint (seg1 v)) @ ''.'' @
     intString (sint (seg2 v))"

subsection \<open>\<open>checkForChanges\<close>\<close>

text \<open>
  The result is Go's pair \<open>(string, error)\<close>; \<open>None\<close> is the nil error.
\<close>

definition checkForChanges ::
  "parser \<Rightarrow> string \<Rightarrow> string \<Rightarrow> string \<Rightarrow> string \<Rightarrow> config \<Rightarrow> string \<times> error option" where
  "checkForChanges nv speakeasyVersion docVersion docChecksum sdkVersion mgmtConfig =
     (if speakeasyVersion \<noteq> lookup mgmtConfig ''speakeasy-version''
         \<or> docVersion \<noteq> lookup mgmtConfig ''openapi-version''
         \<or> docChecksum \<noteq> lookup mgmtConfig ''openapi-checksum''
      then
        (case signals nv speakeasyVersion docVersion docChecksum mgmtConfig of
           Inl e \<Rightarrow> ('''', Some e)
         | Inr b \<Rightarrow>
            (case startVersion nv sdkVersion of
               Inl e \<Rightarrow> ('''', Some e)
             | Inr v \<Rightarrow> (SprintfVersion (bump b v), None)))
      else ('''', None))"

subsection \<open>A parser for dotted decimal strings\<close>

text \<open>
  The closed examples below need a concrete parser. \<open>NewVersion\<close> is the library's parser
  on the strings the examples use: an optional \<open>v\<close>, then one or more runs of decimal
  digits separated by dots, each read with \<open>strconv.ParseInt(_, 10, 64)\<close> (which fails from
  \<open>2^63\<close> on), padded with zeros to three segments. Every other string is rejected here;
  the library also accepts a pre-release or build suffix after the digits, which
  \<open>checkForChanges\<close> never reads and no example uses.
\<close>

definition isDigit :: "char \<Rightarrow> bool" where
  "isDigit c = (c \<in> set ''0123456789'')"

definition digitVal :: "char \<Rightarrow> int" where
  "digitVal c = int (length (takeWhile (\<lambda>x. x \<noteq> c) ''0123456789''))"

definition decVal :: "string \<Rightarrow> int" where
  "decVal s = foldl (\<lambda>a c. 10 * a + digitVal c) 0 s"

fun splitDots :: "string \<Rightarrow> string \<Rightarrow> string list" where
  "splitDots acc [] = [rev acc]"
| "splitDots acc (c # cs) =
     (if c = CHR ''.'' then rev acc # splitDots [] cs else splitDots (c # acc) cs)"

definition ParseInt64 :: "string \<Rightarrow> 64 word option" where
  "ParseInt64 s =
     (if s \<noteq> [] \<and> list_all isDigit s \<and> decVal s < 2 ^ 63 then Some (word_of_int (decVal s))
      else None)"

fun segmentsOf :: "string list \<Rightarrow> 64 word list option" where
  "segmentsOf [] = Some []"
| "segmentsOf (p # ps) =
     (case ParseInt64 p of
        None \<Rightarrow> None
      | Some w \<Rightarrow> (case segmentsOf ps of None \<Rightarrow> None | Some ws \<Rightarrow> Some (w # ws)))"

definition NewVersion :: parser where
  "NewVersion s =
     (case segmentsOf (splitDots [] (case s of [] \<Rightarrow> [] | c # cs \<Rightarrow> if c = CHR ''v'' then cs else s)) of
        None \<Rightarrow> None
      | Some ws \<Rightarrow>
          (case ws @ [0, 0, 0] of
             a # b # c # _ \<Rightarrow> Some \<lparr>seg0 = a, seg1 = b, seg2 = c\<rparr>
           | _ \<Rightarrow> None))"

text \<open>Semantic-version order on the three segments, most significant first.\<close>

definition versionLe :: "version \<Rightarrow> version \<Rightarrow> bool" where
  "versionLe a b =
     (sint (seg0 a) < sint (seg0 b)
      \<or> (seg0 a = seg0 b \<and>
          (sint (seg1 a) < sint (seg1 b)
           \<or> (seg1 a = seg1 b \<and> sint (seg2 a) \<le> sint (seg2 b)))))"


text \<open>A management section holding the three recorded values, for the examples.\<close>

definition mgmt :: "string \<Rightarrow> string \<Rightarrow> string \<Rightarrow> config" where
  "mgmt t d c =
     [''speakeasy-version'' \<mapsto> t, ''openapi-version'' \<mapsto> d, ''openapi-checksum'' \<mapsto> c]"

section \<open>Properties of the version reconciliation\<close>

subsection \<open>Auxiliary facts\<close>

lemma lookup_mgmt:
  "lookup (mgmt t d c) ''speakeasy-version'' = t"
  "lookup (mgmt t d c) ''openapi-version'' = d"
  "lookup (mgmt t d c) ''openapi-checksum'' = c"
  by (simp_all add: lookup_def mgmt_def)

lemma lookup_empty: "lookup Map.empty k = ''''"
  by (simp add: lookup_def)


lemma sint_succ:
  fixes w :: "64 word"
  assumes "sint w < 9223372036854775807"
  shows "sint (w + 1) = sint w + 1"
proof -
  have lo: "- (2 ^ 63) \<le> sint w"
    using sint_ge [of w] by simp
  have "sint (w + 1) = signed_take_bit 63 (sint w + 1)"
    by (simp add: sint_word_add)
  also have "\<dots> = sint w + 1"
    by (rule signed_take_bit_int_eq_self) (use lo assms in simp_all)
  finally show ?thesis .
qed

lemma versionLe_bump:
  assumes "bumpMajor b \<longrightarrow> sint (seg0 v) < 9223372036854775807"
    and "\<not> bumpMajor b \<and> bumpMinor b \<longrightarrow> sint (seg1 v) < 9223372036854775807"
    and "\<not> bumpMajor b \<and> \<not> bumpMinor b \<and> bumpPatch b
           \<longrightarrow> sint (seg2 v) < 9223372036854775807"
  shows "versionLe v (bump b v)"
  using assms by (auto simp add: versionLe_def bump_def sint_succ)

lemma zero_one_zero: "SprintfVersion \<lparr>seg0 = 0, seg1 = 1, seg2 = 0\<rparr> = ''0.1.0''"
  by (simp add: SprintfVersion_def intString_def decString.simps digitChar_def)

lemma checkForChanges_differs:
  assumes "speakeasyVersion \<noteq> lookup mgmtConfig ''speakeasy-version''
         \<or> docVersion \<noteq> lookup mgmtConfig ''openapi-version''
         \<or> docChecksum \<noteq> lookup mgmtConfig ''openapi-checksum''"
  shows "checkForChanges nv speakeasyVersion docVersion docChecksum sdkVersion mgmtConfig =
     (case signals nv speakeasyVersion docVersion docChecksum mgmtConfig of
        Inl e \<Rightarrow> ('''', Some e)
      | Inr b \<Rightarrow>
         (case startVersion nv sdkVersion of
            Inl e \<Rightarrow> ('''', Some e)
          | Inr v \<Rightarrow> (SprintfVersion (bump b v), None)))"
  using assms by (simp add: checkForChanges_def)

lemma checkForChanges_same:
  assumes "speakeasyVersion = lookup mgmtConfig ''speakeasy-version''"
    and "docVersion = lookup mgmtConfig ''openapi-version''"
    and "docChecksum = lookup mgmtConfig ''openapi-checksum''"
  shows "checkForChanges nv speakeasyVersion docVersion docChecksum sdkVersion mgmtConfig =
     ('''', None)"
  using assms by (simp add: checkForChanges_def)

lemma checkForChanges_value:
  assumes "checkForChanges nv speakeasyVersion docVersion docChecksum sdkVersion mgmtConfig =
     (s, None)" and "s \<noteq> ''''"
  shows "\<exists>b v. signals nv speakeasyVersion docVersion docChecksum mgmtConfig = Inr b
          \<and> startVersion nv sdkVersion = Inr v \<and> s = SprintfVersion (bump b v)"
  using assms by (auto simp add: checkForChanges_def split: if_splits sum.splits)



text \<open>The formatted version determines the three segments.\<close>

lemma digit_table:
  "list_all (\<lambda>n. digitVal (digitChar (int n)) = int n \<and> isDigit (digitChar (int n))) [0..<10]"
  by code_simp

lemma digit_entry:
  assumes "d < 10"
  shows "digitVal (digitChar d) = int (nat d) \<and> isDigit (digitChar d)"
proof -
  from assms have "nat d \<in> set [0..<10]"
    by simp
  with digit_table
  have "digitVal (digitChar (int (nat d))) = int (nat d) \<and> isDigit (digitChar (int (nat d)))"
    unfolding list_all_iff by blast
  moreover have "digitChar (int (nat d)) = digitChar d"
    by (simp add: digitChar_def)
  ultimately show ?thesis
    by simp
qed

lemma digitVal_digitChar:
  assumes "0 \<le> d" "d < 10"
  shows "digitVal (digitChar d) = d"
  using digit_entry [OF assms(2)] assms(1) by simp

lemma decVal_snoc: "decVal (xs @ [c]) = 10 * decVal xs + digitVal c"
  by (simp add: decVal_def)

lemma decVal_decString: "0 \<le> n \<Longrightarrow> decVal (decString n) = n"
proof (induction n rule: decString.induct)
  case (1 n)
  show ?case
  proof (cases "n < 10")
    case True
    with "1.prems" show ?thesis
      by (subst decString.simps) (simp add: decVal_def digitVal_digitChar)
  next
    case False
    then have "decVal (decString (n div 10)) = n div 10"
      using "1.IH" "1.prems" by simp
    with False show ?thesis
      by (subst decString.simps) (simp add: decVal_snoc digitVal_digitChar)
  qed
qed

lemma isDigit_digitChar: "d < 10 \<Longrightarrow> isDigit (digitChar d)"
  by (simp add: digit_entry)

lemma decString_digits: "list_all isDigit (decString n)"
proof (induction n rule: decString.induct)
  case (1 n)
  then show ?case
    by (subst decString.simps) (simp add: isDigit_digitChar)
qed

lemma decString_nonempty: "decString n \<noteq> []"
  by (subst decString.simps) simp

lemma decString_inj: "0 \<le> m \<Longrightarrow> 0 \<le> n \<Longrightarrow> decString m = decString n \<Longrightarrow> m = n"
proof -
  assume "0 \<le> m" "0 \<le> n" "decString m = decString n"
  then have "decVal (decString m) = decVal (decString n)" by simp
  with \<open>0 \<le> m\<close> \<open>0 \<le> n\<close> show "m = n" by (simp add: decVal_decString)
qed

lemma decString_no_minus: "hd (decString n) \<noteq> CHR ''-''"
proof -
  have "isDigit (hd (decString n))"
    using decString_digits [of n] decString_nonempty [of n]
    by (cases "decString n") simp_all
  then show ?thesis by (auto simp add: isDigit_def)
qed

lemma intString_inj: "intString i = intString j \<Longrightarrow> i = j"
proof -
  assume e: "intString i = intString j"
  consider "i < 0" "j < 0" | "i < 0" "0 \<le> j" | "0 \<le> i" "j < 0" | "0 \<le> i" "0 \<le> j"
    by linarith
  then show ?thesis
  proof cases
    case 1
    with e have "decString (- i) = decString (- j)" by (simp add: intString_def)
    with 1 have "- i = - j" by (intro decString_inj) simp_all
    then show ?thesis by simp
  next
    case 2
    with e have "CHR ''-'' # decString (- i) = decString j" by (simp add: intString_def)
    then have "hd (decString j) = CHR ''-''" by (metis list.sel(1))
    then show ?thesis using decString_no_minus by blast
  next
    case 3
    with e have "decString i = CHR ''-'' # decString (- j)" by (simp add: intString_def)
    then have "hd (decString i) = CHR ''-''" by (metis list.sel(1))
    then show ?thesis using decString_no_minus by blast
  next
    case 4
    with e show ?thesis by (simp add: intString_def decString_inj)
  qed
qed

lemma intString_no_dot: "CHR ''.'' \<notin> set (intString i)"
proof -
  have d: "\<not> isDigit (CHR ''.'')"
    by (simp add: isDigit_def)
  have "CHR ''.'' \<notin> set (decString n)" for n
  proof
    assume "CHR ''.'' \<in> set (decString n)"
    with decString_digits [of n] have "isDigit (CHR ''.'')"
      unfolding list_all_iff by blast
    with d show False by contradiction
  qed
  then show ?thesis by (simp add: intString_def)
qed

lemma dot_split_unique:
  assumes "CHR ''.'' \<notin> set a" "CHR ''.'' \<notin> set a'" "a @ CHR ''.'' # r = a' @ CHR ''.'' # r'"
  shows "a = a' \<and> r = r'"
  using assms
proof (induction a arbitrary: a')
  case Nil
  then show ?case by (cases a') auto
next
  case (Cons x a)
  then show ?case by (cases a') auto
qed

lemma SprintfVersion_inj: "SprintfVersion v = SprintfVersion w \<Longrightarrow> v = w"
proof -
  assume e: "SprintfVersion v = SprintfVersion w"
  let ?a = "intString (sint (seg0 v))" and ?b = "intString (sint (seg1 v))"
    and ?c = "intString (sint (seg2 v))"
  let ?a' = "intString (sint (seg0 w))" and ?b' = "intString (sint (seg1 w))"
    and ?c' = "intString (sint (seg2 w))"
  from e have 1: "?a @ CHR ''.'' # (?b @ CHR ''.'' # ?c) = ?a' @ CHR ''.'' # (?b' @ CHR ''.'' # ?c')"
    by (simp add: SprintfVersion_def)
  have a: "?a = ?a'" and r: "?b @ CHR ''.'' # ?c = ?b' @ CHR ''.'' # ?c'"
    using dot_split_unique [OF intString_no_dot intString_no_dot 1] by simp_all
  have b: "?b = ?b'" and c: "?c = ?c'"
    using dot_split_unique [OF intString_no_dot intString_no_dot r] by simp_all
  from a b c have "seg0 v = seg0 w" "seg1 v = seg1 w" "seg2 v = seg2 w"
    by (auto dest!: intString_inj intro: signed_word_eqI)
  then show ?thesis by simp
qed

section \<open>The claims about \<open>checkForChanges\<close>\<close>

text \<open>
  C3. When the current generator version, document version and checksum all equal the
  recorded ones, \<open>checkForChanges\<close> returns the empty string and a nil error, whatever the
  previous SDK version is and whatever the parser does: no version string is parsed.
\<close>

theorem checkForChanges_no_change:
  assumes "speakeasyVersion = lookup mgmtConfig ''speakeasy-version''"
    and "docVersion = lookup mgmtConfig ''openapi-version''"
    and "docChecksum = lookup mgmtConfig ''openapi-checksum''"
  shows "checkForChanges nv speakeasyVersion docVersion docChecksum sdkVersion mgmtConfig =
     ('''', None)"
  using assms by (rule checkForChanges_same)

theorem checkForChanges_no_change_witness:
  "''1.20.0'' = lookup (mgmt ''1.20.0'' ''not a version'' ''abc'') ''speakeasy-version''
   \<and> ''not a version'' = lookup (mgmt ''1.20.0'' ''not a version'' ''abc'') ''openapi-version''
   \<and> ''abc'' = lookup (mgmt ''1.20.0'' ''not a version'' ''abc'') ''openapi-checksum''
   \<and> checkForChanges (\<lambda>s. None) ''1.20.0'' ''not a version'' ''abc'' ''v?''
        (mgmt ''1.20.0'' ''not a version'' ''abc'') = ('''', None)"
  using checkForChanges_no_change
    [of "''1.20.0''" "mgmt ''1.20.0'' ''not a version'' ''abc''" "''not a version''" "''abc''"
        "\<lambda>s. None" "''v?''"]
  by (simp add: lookup_mgmt)

text \<open>
  C4. On a first run, when the three recorded values and the previous SDK version are all
  empty and at least one current value is not, \<open>checkForChanges\<close> returns exactly
  \<open>0.1.0\<close> and a nil error.
\<close>

theorem checkForChanges_first_run:
  assumes "lookup mgmtConfig ''speakeasy-version'' = ''''"
    and "lookup mgmtConfig ''openapi-version'' = ''''"
    and "lookup mgmtConfig ''openapi-checksum'' = ''''"
    and "speakeasyVersion \<noteq> '''' \<or> docVersion \<noteq> '''' \<or> docChecksum \<noteq> ''''"
  shows "checkForChanges nv speakeasyVersion docVersion docChecksum '''' mgmtConfig =
     (''0.1.0'', None)"
proof -
  have s: "signals nv speakeasyVersion docVersion docChecksum mgmtConfig =
      Inr (noBumps\<lparr>bumpMinor := True\<rparr>)"
    using assms(1-3)
    by (simp add: signals_def speakeasySignal_def docSignal_def checksumSignal_def)
  have b: "bump (noBumps\<lparr>bumpMinor := True\<rparr>) zeroVersion = \<lparr>seg0 = 0, seg1 = 1, seg2 = 0\<rparr>"
    by (simp add: bump_def noBumps_def zeroVersion_def)
  have "checkForChanges nv speakeasyVersion docVersion docChecksum '''' mgmtConfig =
      (SprintfVersion (bump (noBumps\<lparr>bumpMinor := True\<rparr>) zeroVersion), None)"
    using assms by (subst checkForChanges_differs) (auto simp add: s startVersion_def)
  then show ?thesis
    by (simp only: b zero_one_zero)
qed

theorem checkForChanges_first_run_witness:
  "lookup Map.empty ''speakeasy-version'' = ''''
   \<and> lookup Map.empty ''openapi-version'' = ''''
   \<and> lookup Map.empty ''openapi-checksum'' = ''''
   \<and> ''1.20.0'' \<noteq> ''''
   \<and> checkForChanges NewVersion ''1.20.0'' ''1.0.0'' ''abc'' '''' Map.empty = (''0.1.0'', None)"
  using checkForChanges_first_run [of Map.empty "''1.20.0''" "''1.0.0''" "''abc''" NewVersion]
  by (simp add: lookup_empty)

text \<open>
  C9. Whenever \<open>checkForChanges\<close> returns an error, the string it returns with it is
  empty.
\<close>

theorem checkForChanges_error_atomic:
  "snd (checkForChanges nv speakeasyVersion docVersion docChecksum sdkVersion mgmtConfig) \<noteq> None
   \<longrightarrow> fst (checkForChanges nv speakeasyVersion docVersion docChecksum sdkVersion mgmtConfig) = ''''"
  by (simp add: checkForChanges_def split: sum.splits)

theorem checkForChanges_error_atomic_witness:
  "snd (checkForChanges NewVersion ''1.21.0'' ''1.0.0'' ''abc'' ''latest''
          (mgmt ''1.20.0'' ''1.0.0'' ''abc'')) \<noteq> None
   \<and> fst (checkForChanges NewVersion ''1.21.0'' ''1.0.0'' ''abc'' ''latest''
          (mgmt ''1.20.0'' ''1.0.0'' ''abc'')) = ''''"
proof -
  have "checkForChanges NewVersion ''1.21.0'' ''1.0.0'' ''abc'' ''latest''
      (mgmt ''1.20.0'' ''1.0.0'' ''abc'') = ('''', Some ErrSdkVersion)"
    by code_simp
  then have h: "snd (checkForChanges NewVersion ''1.21.0'' ''1.0.0'' ''abc'' ''latest''
      (mgmt ''1.20.0'' ''1.0.0'' ''abc'')) \<noteq> None"
    by simp
  with checkForChanges_error_atomic
    [of NewVersion "''1.21.0''" "''1.0.0''" "''abc''" "''latest''" "mgmt ''1.20.0'' ''1.0.0'' ''abc''"]
  show ?thesis by blast
qed




text \<open>
  C5, as the code has it. On every input where \<open>checkForChanges\<close> returns a non-empty
  version and no error, the flags and the starting version exist and the result follows the
  precedence Major, then Minor, then Patch: one component is incremented (Go's \<open>++\<close> on
  \<open>int\<close>) and the less significant ones are reset. When no signal recommends anything
  the starting version is returned with no component incremented.
\<close>

theorem checkForChanges_precedence:
  assumes "checkForChanges nv speakeasyVersion docVersion docChecksum sdkVersion mgmtConfig =
     (s, None)" and "s \<noteq> ''''"
  shows "\<exists>b v. signals nv speakeasyVersion docVersion docChecksum mgmtConfig = Inr b
      \<and> startVersion nv sdkVersion = Inr v
      \<and> (bumpMajor b \<longrightarrow>
            s = SprintfVersion \<lparr>seg0 = seg0 v + 1, seg1 = 0, seg2 = 0\<rparr>)
      \<and> (\<not> bumpMajor b \<and> bumpMinor b \<longrightarrow>
            s = SprintfVersion \<lparr>seg0 = seg0 v, seg1 = seg1 v + 1, seg2 = 0\<rparr>)
      \<and> (\<not> bumpMajor b \<and> \<not> bumpMinor b \<and> bumpPatch b \<longrightarrow>
            s = SprintfVersion \<lparr>seg0 = seg0 v, seg1 = seg1 v, seg2 = seg2 v + 1\<rparr>)
      \<and> (\<not> bumpMajor b \<and> \<not> bumpMinor b \<and> \<not> bumpPatch b \<longrightarrow> s = SprintfVersion v)"
proof -
  from checkForChanges_value [OF assms] obtain b v where
    b: "signals nv speakeasyVersion docVersion docChecksum mgmtConfig = Inr b"
    and v: "startVersion nv sdkVersion = Inr v"
    and s: "s = SprintfVersion (bump b v)"
    by blast
  show ?thesis
    using b v s by (intro exI [of _ b] exI [of _ v]) (simp add: bump_def)
qed

theorem checkForChanges_precedence_witness:
  "checkForChanges NewVersion ''2.0.0'' ''1.1.0'' ''def'' ''1.2.3''
      (mgmt ''1.9.9'' ''1.0.0'' ''abc'') = (''2.0.0'', None)
   \<and> ''2.0.0'' \<noteq> ''''
   \<and> signals NewVersion ''2.0.0'' ''1.1.0'' ''def'' (mgmt ''1.9.9'' ''1.0.0'' ''abc'') =
        Inr \<lparr>bumpMajor = True, bumpMinor = True, bumpPatch = True, docVersionUpdated = True\<rparr>
   \<and> startVersion NewVersion ''1.2.3'' = Inr \<lparr>seg0 = 1, seg1 = 2, seg2 = 3\<rparr>
   \<and> ''2.0.0'' = SprintfVersion \<lparr>seg0 = 1 + 1, seg1 = 0, seg2 = 0\<rparr>"
proof -
  have r: "checkForChanges NewVersion ''2.0.0'' ''1.1.0'' ''def'' ''1.2.3''
      (mgmt ''1.9.9'' ''1.0.0'' ''abc'') = (''2.0.0'', None)"
    by code_simp
  have n: "''2.0.0'' \<noteq> ''''"
    by simp
  have b: "signals NewVersion ''2.0.0'' ''1.1.0'' ''def'' (mgmt ''1.9.9'' ''1.0.0'' ''abc'') =
      Inr \<lparr>bumpMajor = True, bumpMinor = True, bumpPatch = True, docVersionUpdated = True\<rparr>"
    by code_simp
  have v: "startVersion NewVersion ''1.2.3'' = Inr \<lparr>seg0 = 1, seg1 = 2, seg2 = 3\<rparr>"
    by code_simp
  from checkForChanges_precedence [OF r n] b v
  have "''2.0.0'' = SprintfVersion \<lparr>seg0 = 1 + 1, seg1 = 0, seg2 = 0\<rparr>"
    by auto
  with r n b v show ?thesis
    by blast
qed

theorem checkForChanges_precedence_counterexample:
  "checkForChanges NewVersion ''1.0.0'' ''1.0.0'' ''abc'' ''3.4.5''
      (mgmt ''1.0.0'' ''1.1.0'' ''abc'') = (''3.4.5'', None)
   \<and> ''3.4.5'' \<noteq> ''''
   \<and> startVersion NewVersion ''3.4.5'' = Inr \<lparr>seg0 = 3, seg1 = 4, seg2 = 5\<rparr>
   \<and> SprintfVersion \<lparr>seg0 = 3, seg1 = 4, seg2 = 5\<rparr> = ''3.4.5''"
  by code_simp

text \<open>
  C6, as the code has it. On every input where \<open>checkForChanges\<close> returns a non-empty
  version and no error, the returned string is the formatting of exactly one version, and
  that version is at least the starting version (the parsed previous SDK version, or
  \<open>0.0.0\<close>), provided the component that is incremented is below the largest \<open>int\<close>,
  \<open>2^63 - 1\<close>.
\<close>

theorem checkForChanges_monotone:
  assumes "checkForChanges nv speakeasyVersion docVersion docChecksum sdkVersion mgmtConfig =
     (s, None)" and "s \<noteq> ''''"
    and "signals nv speakeasyVersion docVersion docChecksum mgmtConfig = Inr b"
    and "startVersion nv sdkVersion = Inr v"
    and "bumpMajor b \<longrightarrow> sint (seg0 v) < 9223372036854775807"
    and "\<not> bumpMajor b \<and> bumpMinor b \<longrightarrow> sint (seg1 v) < 9223372036854775807"
    and "\<not> bumpMajor b \<and> \<not> bumpMinor b \<and> bumpPatch b
           \<longrightarrow> sint (seg2 v) < 9223372036854775807"
  shows "(\<exists>t. s = SprintfVersion t) \<and> (\<forall>t. s = SprintfVersion t \<longrightarrow> versionLe v t)"
proof -
  from checkForChanges_value [OF assms(1,2)] assms(3,4)
  have s: "s = SprintfVersion (bump b v)"
    by simp
  have le: "versionLe v (bump b v)"
    using assms(5-7) by (rule versionLe_bump)
  show ?thesis
  proof (intro conjI allI impI)
    show "\<exists>t. s = SprintfVersion t"
      using s by blast
  next
    fix t
    assume "s = SprintfVersion t"
    with s have "t = bump b v"
      using SprintfVersion_inj by simp
    with le show "versionLe v t"
      by simp
  qed
qed

theorem checkForChanges_monotone_witness:
  "checkForChanges NewVersion ''1.21.0'' ''1.0.0'' ''abc'' ''1.2.3''
      (mgmt ''1.20.0'' ''1.0.0'' ''abc'') = (''1.3.0'', None)
   \<and> ''1.3.0'' \<noteq> ''''
   \<and> signals NewVersion ''1.21.0'' ''1.0.0'' ''abc'' (mgmt ''1.20.0'' ''1.0.0'' ''abc'') =
        Inr (noBumps\<lparr>bumpMinor := True\<rparr>)
   \<and> startVersion NewVersion ''1.2.3'' = Inr \<lparr>seg0 = 1, seg1 = 2, seg2 = 3\<rparr>
   \<and> ''1.3.0'' = SprintfVersion \<lparr>seg0 = 1, seg1 = 3, seg2 = 0\<rparr>
   \<and> versionLe \<lparr>seg0 = 1, seg1 = 2, seg2 = 3\<rparr> \<lparr>seg0 = 1, seg1 = 3, seg2 = 0\<rparr>"
proof -
  have r: "checkForChanges NewVersion ''1.21.0'' ''1.0.0'' ''abc'' ''1.2.3''
      (mgmt ''1.20.0'' ''1.0.0'' ''abc'') = (''1.3.0'', None)"
    by code_simp
  have n: "''1.3.0'' \<noteq> ''''"
    by simp
  have b: "signals NewVersion ''1.21.0'' ''1.0.0'' ''abc'' (mgmt ''1.20.0'' ''1.0.0'' ''abc'') =
      Inr (noBumps\<lparr>bumpMinor := True\<rparr>)"
    by code_simp
  have v: "startVersion NewVersion ''1.2.3'' = Inr \<lparr>seg0 = 1, seg1 = 2, seg2 = 3\<rparr>"
    by code_simp
  have f: "''1.3.0'' = SprintfVersion \<lparr>seg0 = 1, seg1 = 3, seg2 = 0\<rparr>"
    by code_simp
  have "\<forall>t. ''1.3.0'' = SprintfVersion t \<longrightarrow> versionLe \<lparr>seg0 = 1, seg1 = 2, seg2 = 3\<rparr> t"
    by (rule checkForChanges_monotone [OF r n b v, THEN conjunct2]) (simp_all add: noBumps_def)
  with f have "versionLe \<lparr>seg0 = 1, seg1 = 2, seg2 = 3\<rparr> \<lparr>seg0 = 1, seg1 = 3, seg2 = 0\<rparr>"
    by blast
  with r n b v f show ?thesis
    by blast
qed

theorem checkForChanges_monotone_counterexample:
  "checkForChanges NewVersion ''2.0.0'' ''1.0.0'' ''abc'' ''9223372036854775807.0.0''
      (mgmt ''1.0.0'' ''1.0.0'' ''abc'') = (''-9223372036854775808.0.0'', None)
   \<and> startVersion NewVersion ''9223372036854775807.0.0'' =
        Inr \<lparr>seg0 = 9223372036854775807, seg1 = 0, seg2 = 0\<rparr>
   \<and> SprintfVersion \<lparr>seg0 = 9223372036854775807 + 1, seg1 = 0, seg2 = 0\<rparr> =
        ''-9223372036854775808.0.0''
   \<and> \<not> versionLe \<lparr>seg0 = 9223372036854775807, seg1 = 0, seg2 = 0\<rparr>
          \<lparr>seg0 = 9223372036854775807 + 1, seg1 = 0, seg2 = 0\<rparr>"
  by code_simp




end
